theory Spec2Isabelle
  imports Main
begin

section \<open>Python values\<close>

text \<open>
  The conversation agent (\<^verbatim>\<open>conversation.py\<close>) works on the decoded JSON body of the
  backend's reply. A decoded body is a Python value: \<^verbatim>\<open>None\<close>, a bool, an int, a
  str, a list or a dict with string keys. A dict is kept as an association list read with
  \<open>map_of\<close>. Python strings are sequences of code points; here a code point is a
  \<open>char\<close>, so the model covers the code points below 256. JSON numbers with a fraction
  or an exponent (Python floats) are not part of the model.
\<close>

datatype json =
    JNull
  | JBool bool
  | JInt int
  | JStr string
  | JArr "json list"
  | JObj "(string \<times> json) list"

type_synonym dict = "(string \<times> json) list"

text \<open>
  The exceptions of one turn, by the \<^verbatim>\<open>except\<close> clause of \<^verbatim>\<open>async_process\<close> that
  catches them: \<^verbatim>\<open>asyncio.TimeoutError\<close>, \<^verbatim>\<open>aiohttp.ClientError\<close>, the module's own
  \<^verbatim>\<open>ConversationError\<close> (with its message), and those that only the last clause
  (\<^verbatim>\<open>except Exception\<close>) catches. Exceptions outside \<^verbatim>\<open>Exception\<close>, such as the
  cancellation of the task, are not part of the model.
\<close>

datatype exn =
    TimeoutError
  | ClientError
  | ConversationError string
  | AttributeError
  | TypeError
  | OverflowError
  | OtherException

subsection \<open>Truth value, \<^verbatim>\<open>dict.get\<close>, \<^verbatim>\<open>str.strip\<close>\<close>

fun truthy :: "json \<Rightarrow> bool" where
  "truthy JNull = False"
| "truthy (JBool b) = b"
| "truthy (JInt i) = (i \<noteq> 0)"
| "truthy (JStr s) = (s \<noteq> [])"
| "truthy (JArr xs) = (xs \<noteq> [])"
| "truthy (JObj kvs) = (kvs \<noteq> [])"

text \<open>\<^verbatim>\<open>d.get(k, dflt)\<close> on a dict.\<close>

definition dict_get :: "dict \<Rightarrow> string \<Rightarrow> json \<Rightarrow> json" where
  "dict_get d k dflt = (case map_of d k of None \<Rightarrow> dflt | Some v \<Rightarrow> v)"

text \<open>
  \<^verbatim>\<open>obj.get(k, dflt)\<close> on any value: only a dict has the method, every other value
  raises \<^verbatim>\<open>AttributeError\<close>.
\<close>

definition py_get :: "json \<Rightarrow> string \<Rightarrow> json \<Rightarrow> exn + json" where
  "py_get obj k dflt =
     (case obj of JObj d \<Rightarrow> Inr (dict_get d k dflt) | _ \<Rightarrow> Inl AttributeError)"

text \<open>\<^verbatim>\<open>str.isspace\<close> on one code point below 256, and \<^verbatim>\<open>str.strip()\<close>.\<close>

definition is_space :: "char \<Rightarrow> bool" where
  "is_space c = (of_char c \<in> {9::nat, 10, 11, 12, 13, 28, 29, 30, 31, 32, 133, 160})"

definition py_strip :: "string \<Rightarrow> string" where
  "py_strip s = rev (dropWhile is_space (rev (dropWhile is_space s)))"

subsection \<open>\<^verbatim>\<open>str()\<close> and \<^verbatim>\<open>repr()\<close>\<close>

definition digit_char :: "nat \<Rightarrow> char" where
  "digit_char n = ''0123456789'' ! n"

fun nat_str :: "nat \<Rightarrow> string" where
  "nat_str n = (if n < 10 then [digit_char n] else nat_str (n div 10) @ [digit_char (n mod 10)])"

declare nat_str.simps [simp del]

definition int_str :: "int \<Rightarrow> string" where
  "int_str i = (if i < 0 then CHR ''-'' # nat_str (nat (- i)) else nat_str (nat i))"

definition hex_char :: "nat \<Rightarrow> char" where
  "hex_char n = ''0123456789abcdef'' ! n"

definition repr_quote :: "string \<Rightarrow> char" where
  "repr_quote s = (if CHR 0x27 \<in> set s \<and> CHR 0x22 \<notin> set s then CHR 0x22 else CHR 0x27)"

definition repr_char :: "char \<Rightarrow> char \<Rightarrow> string" where
  "repr_char q c =
     (let n = (of_char c :: nat) in
      if c = q \<or> c = CHR 0x5C then [CHR 0x5C, c]
      else if n = 9 then [CHR 0x5C, CHR ''t'']
      else if n = 10 then [CHR 0x5C, CHR ''n'']
      else if n = 13 then [CHR 0x5C, CHR ''r'']
      else if n < 32 \<or> n = 127 \<or> (128 \<le> n \<and> n \<le> 160) \<or> n = 173
        then [CHR 0x5C, CHR ''x'', hex_char (n div 16), hex_char (n mod 16)]
      else [c])"

definition repr_str :: "string \<Rightarrow> string" where
  "repr_str s = (let q = repr_quote s in q # concat (map (repr_char q) s) @ [q])"

fun py_join :: "string \<Rightarrow> string list \<Rightarrow> string" where
  "py_join sep [] = []"
| "py_join sep [x] = x"
| "py_join sep (x # y # ys) = x @ sep @ py_join sep (y # ys)"

fun py_repr :: "json \<Rightarrow> string" where
  "py_repr JNull = ''None''"
| "py_repr (JBool b) = (if b then ''True'' else ''False'')"
| "py_repr (JInt i) = int_str i"
| "py_repr (JStr s) = repr_str s"
| "py_repr (JArr xs) = ''['' @ py_join '', '' (map py_repr xs) @ '']''"
| "py_repr (JObj kvs) =
     ''{'' @ py_join '', '' (map (\<lambda>kv. repr_str (fst kv) @ '': '' @ py_repr (snd kv)) kvs) @ ''}''"

definition py_str :: "json \<Rightarrow> string" where
  "py_str v = (case v of JStr s \<Rightarrow> s | _ \<Rightarrow> py_repr v)"

text \<open>
  \<^verbatim>\<open>v[:n]\<close>: a str and a list have slices; \<^verbatim>\<open>None\<close>, a bool and an int raise
  \<^verbatim>\<open>TypeError\<close>, and so does a dict (\<^verbatim>\<open>KeyError\<close> from Python 3.12 on, caught by the
  same clause).
\<close>

definition py_slice :: "json \<Rightarrow> nat \<Rightarrow> exn + json" where
  "py_slice v n =
     (case v of
        JStr s \<Rightarrow> Inr (JStr (take n s))
      | JArr xs \<Rightarrow> Inr (JArr (take n xs))
      | _ \<Rightarrow> Inl TypeError)"

section \<open>Constants (\<^verbatim>\<open>const.py\<close>)\<close>

definition DOMAIN :: string where
  "DOMAIN = ''glitchcube_conversation''"

definition DEFAULT_PORT :: int where
  "DEFAULT_PORT = 4567"

definition DEFAULT_TIMEOUT :: int where
  "DEFAULT_TIMEOUT = 120"

definition RESPONSE_KEY :: string where
  "RESPONSE_KEY = ''response''"

section \<open>The entity and its surroundings\<close>

text \<open>
  \<^verbatim>\<open>config_entry.data\<close> holds \<^verbatim>\<open>"host"\<close> (a str) and \<^verbatim>\<open>"port"\<close> (an int), as the
  schema of \<^verbatim>\<open>config_flow.py\<close> stores them; either key may be missing.
\<close>

record config_entry =
  data_host :: "string option"
  data_port :: "int option"
  entry_id :: string

record entity =
  cfg :: config_entry
  api_url :: "string option"
  unique_id :: string
  timeout :: int

record user_input =
  ui_text :: string
  conversation_id :: "string option"
  device_id :: "string option"
  language :: string
  user_id :: "string option"

text \<open>
  The \<^verbatim>\<open>ConversationResult\<close> handed back to the host: the conversation id, the language
  of the \<^verbatim>\<open>IntentResponse\<close>, the value given to \<^verbatim>\<open>async_set_speech\<close> and the
  \<^verbatim>\<open>continue_conversation\<close> flag. The last two are whatever Python value the handler
  passed on.
\<close>

record conversation_result =
  result_conversation_id :: "string option"
  response_language :: string
  speech :: json
  continue_conversation :: json

text \<open>
  What one turn does to the outside, in order: a call of \<^verbatim>\<open>hass.services.async_call\<close>
  (domain, service, service data, and the exception it raised, if any) and a completed
  \<^verbatim>\<open>asyncio.sleep\<close> (seconds).
\<close>

datatype event =
    ServiceCall string string dict "exn option"
  | Sleep int

text \<open>
  The reply to the POST: the call raises, or there is a status and the outcome of
  \<^verbatim>\<open>response.json()\<close>.
\<close>

datatype http_outcome =
    PostRaises exn
  | Response int "exn + json"

text \<open>
  Everything outside the agent that one turn reads: \<^verbatim>\<open>hass.states.get(entity_id)\<close>
  (raises, finds nothing, or finds a state with its \<^verbatim>\<open>.state\<close> string), the outcome of
  \<^verbatim>\<open>hass.services.async_call\<close>, the backend behind \<^verbatim>\<open>session.post(url, json=payload)\<close>
  and the clock.
\<close>

record world =
  states_get :: "string \<Rightarrow> exn + string option"
  services_async_call :: "string \<Rightarrow> string \<Rightarrow> dict \<Rightarrow> exn option"
  session_post :: "string \<Rightarrow> json \<Rightarrow> http_outcome"
  utcnow_isoformat :: string

text \<open>\<^verbatim>\<open>__init__\<close>: with no host configured the URL is left unset (dynamic mode).\<close>

definition init_entity :: "config_entry \<Rightarrow> entity" where
  "init_entity config =
     (let host = (case data_host config of None \<Rightarrow> [] | Some h \<Rightarrow> h);
          port = (case data_port config of None \<Rightarrow> DEFAULT_PORT | Some p \<Rightarrow> p)
      in \<lparr> cfg = config,
           api_url = (if host = [] then None
                      else Some (''http://'' @ host @ '':'' @ int_str port @ ''/api/v1/conversation'')),
           unique_id = DOMAIN @ ''_'' @ entry_id config,
           timeout = DEFAULT_TIMEOUT \<rparr>)"

section \<open>Endpoint resolution (\<^verbatim>\<open>_get_current_api_url\<close>)\<close>

definition config_port :: "entity \<Rightarrow> int" where
  "config_port self = (case data_port (cfg self) of None \<Rightarrow> DEFAULT_PORT | Some p \<Rightarrow> p)"

text \<open>
  The \<^verbatim>\<open>try\<close> block: the URL built from the dynamic host, or nothing when the state is
  missing, empty or a sentinel, or when the read raised.
\<close>

definition dynamic_api_url :: "entity \<Rightarrow> world \<Rightarrow> string option" where
  "dynamic_api_url self w =
     (case states_get w ''input_text.glitchcube_host'' of
        Inl e \<Rightarrow> None
      | Inr None \<Rightarrow> None
      | Inr (Some st) \<Rightarrow>
          if st \<noteq> [] \<and> st \<notin> set [''unknown'', ''unavailable'', []]
          then Some (''http://'' @ py_strip st @ '':'' @ int_str (config_port self)
                     @ ''/api/v1/conversation'')
          else None)"

definition get_current_api_url :: "entity \<Rightarrow> world \<Rightarrow> string" where
  "get_current_api_url self w =
     (case dynamic_api_url self w of
        Some url \<Rightarrow> url
      | None \<Rightarrow>
          (case api_url self of
             Some url \<Rightarrow>
               if url \<noteq> [] then url
               else ''http://192.168.0.99:'' @ int_str (config_port self) @ ''/api/v1/conversation''
           | None \<Rightarrow>
               ''http://192.168.0.99:'' @ int_str (config_port self) @ ''/api/v1/conversation''))"

section \<open>Speech extraction (\<^verbatim>\<open>_extract_response_text\<close>)\<close>

text \<open>\<^verbatim>\<open>raw_response.get("speech", {}).get("plain", {}).get("speech")\<close>\<close>

definition speech_plain_speech :: "dict \<Rightarrow> exn + json" where
  "speech_plain_speech raw_response =
     (case py_get (dict_get raw_response ''speech'' (JObj [])) ''plain'' (JObj []) of
        Inl e \<Rightarrow> Inl e
      | Inr plain \<Rightarrow> py_get plain ''speech'' JNull)"

text \<open>\<^verbatim>\<open>raw_response.get("data", {}).get("custom_data", {}).get("claude_response", "")\<close>\<close>

definition custom_data_claude_response :: "dict \<Rightarrow> exn + json" where
  "custom_data_claude_response raw_response =
     (case py_get (dict_get raw_response ''data'' (JObj [])) ''custom_data'' (JObj []) of
        Inl e \<Rightarrow> Inl e
      | Inr custom_data \<Rightarrow> py_get custom_data ''claude_response'' (JStr []))"

text \<open>
  The end of the function: \<^verbatim>\<open>response_text.strip()\<close>, which only a str has, and the
  safety string for an empty result.
\<close>

definition clean_text :: "json \<Rightarrow> exn + string" where
  "clean_text response_text =
     (case response_text of
        JStr s \<Rightarrow>
          (let cleaned_text = py_strip s
           in Inr (if cleaned_text = [] then ''Sorry, I'm having trouble speaking right now.''
                   else cleaned_text))
      | _ \<Rightarrow> Inl AttributeError)"

text \<open>
  The \<^verbatim>\<open>or\<close> chain gives its first truthy operand and does not evaluate the later
  ones.
\<close>

definition extract_response_text :: "dict \<Rightarrow> exn + string" where
  "extract_response_text conversation_data =
     (let raw_response = dict_get conversation_data RESPONSE_KEY (JStr []) in
      case raw_response of
        JObj raw \<Rightarrow>
          (case speech_plain_speech raw of
             Inl e \<Rightarrow> Inl e
           | Inr nested \<Rightarrow>
               if truthy nested then clean_text nested
               else
                 let simple = dict_get raw ''response'' JNull in
                 if truthy simple then clean_text simple
                 else
                   (case custom_data_claude_response raw of
                      Inl e \<Rightarrow> Inl e
                    | Inr claude \<Rightarrow>
                        let truncated = take 100 (py_str claude) in
                        if truncated \<noteq> [] then clean_text (JStr truncated)
                        else clean_text (JStr ''I had some trouble with that response.'')))
      | _ \<Rightarrow>
          clean_text (JStr (if truthy raw_response then py_str raw_response
                            else ''I didn't understand that.'')))"

section \<open>Side effects\<close>

text \<open>
  A service call inside \<^verbatim>\<open>try ... except Exception\<close>: the exception is logged and
  dropped, the code after the block runs in both cases.
\<close>

definition try_async_call :: "world \<Rightarrow> string \<Rightarrow> string \<Rightarrow> dict \<Rightarrow> event list" where
  "try_async_call w domain service service_data =
     (case services_async_call w domain service service_data of
        None \<Rightarrow> [ServiceCall domain service service_data None]
      | Some e \<Rightarrow> [ServiceCall domain service service_data (Some e)])"

definition play_listening_resume_sound :: "world \<Rightarrow> event list" where
  "play_listening_resume_sound w =
     try_async_call w ''media_player'' ''play_media''
       [(''entity_id'', JStr ''media_player.square_voice''),
        (''media_content_id'', JStr ''/media/sounds/listening_resume.wav''),
        (''media_content_type'', JStr ''audio/wav'')]"

text \<open>
  \<^verbatim>\<open>asyncio.sleep(delay)\<close> compares \<^verbatim>\<open>delay\<close> with 0, which raises \<^verbatim>\<open>TypeError\<close>
  for every value of the model that is not an int (a bool is an int). A delay that is not
  positive returns at once. A positive delay is added to the loop's clock, a float: an int
  too large for a float (from \<open>2 ^ 1024 - 2 ^ 970\<close> on) raises \<^verbatim>\<open>OverflowError\<close>.
\<close>

definition asyncio_sleep :: "json \<Rightarrow> exn + event list" where
  "asyncio_sleep delay =
     (case delay of
        JInt n \<Rightarrow>
          if n \<le> 0 then Inr [Sleep n]
          else if n < 2 ^ 1024 - 2 ^ 970 then Inr [Sleep n]
          else Inl OverflowError
      | JBool b \<Rightarrow> Inr [Sleep (if b then 1 else 0)]
      | _ \<Rightarrow> Inl TypeError)"

section \<open>The three handlers\<close>

definition make_result :: "user_input \<Rightarrow> json \<Rightarrow> json \<Rightarrow> conversation_result" where
  "make_result ui speech_value continue_value =
     \<lparr> result_conversation_id = conversation_id ui,
       response_language = language ui,
       speech = speech_value,
       continue_conversation = continue_value \<rparr>"

text \<open>
  \<^verbatim>\<open>_handle_immediate_speech_with_background_tools\<close>. The first log line evaluates
  \<^verbatim>\<open>speech_text[:50]\<close>.
\<close>

definition handle_immediate_speech_with_background_tools ::
  "world \<Rightarrow> dict \<Rightarrow> user_input \<Rightarrow> (exn + conversation_result) \<times> event list" where
  "handle_immediate_speech_with_background_tools w conversation_data ui =
     (let speech_text = dict_get conversation_data ''speech_text'' (JStr ''On it!'') in
      case py_slice speech_text 50 of
        Inl e \<Rightarrow> (Inl e, [])
      | Inr logged \<Rightarrow>
          let tts = try_async_call w ''tts'' ''cloud_say''
                      [(''entity_id'', JStr ''media_player.square_voice''),
                       (''message'', speech_text),
                       (''language'', JStr ''en-US'')];
              delay_seconds = dict_get conversation_data ''continue_delay'' (JInt 3)
          in case asyncio_sleep delay_seconds of
               Inl e \<Rightarrow> (Inl e, tts)
             | Inr slept \<Rightarrow>
                 (Inr (make_result ui (JStr '' '') (JBool True)),
                  tts @ slept @ play_listening_resume_sound w))"

text \<open>\<^verbatim>\<open>_handle_error_response\<close>\<close>

definition handle_error_response ::
  "dict \<Rightarrow> user_input \<Rightarrow> (exn + conversation_result) \<times> event list" where
  "handle_error_response conversation_data ui =
     (let error_text = dict_get conversation_data ''speech_text'' (JStr ''I encountered an error.'')
      in (Inr (make_result ui error_text (JBool False)), []))"

text \<open>\<^verbatim>\<open>_handle_normal_response\<close>\<close>

definition handle_normal_response ::
  "world \<Rightarrow> dict \<Rightarrow> user_input \<Rightarrow> (exn + conversation_result) \<times> event list" where
  "handle_normal_response w conversation_data ui =
     (case extract_response_text conversation_data of
        Inl e \<Rightarrow> (Inl e, [])
      | Inr response_text \<Rightarrow>
          let continue_conv = dict_get conversation_data ''continue_conversation'' (JBool False) in
          if truthy continue_conv then
            (let delay_seconds = dict_get conversation_data ''continue_delay'' (JInt 3) in
             case asyncio_sleep delay_seconds of
               Inl e \<Rightarrow> (Inl e, [])
             | Inr slept \<Rightarrow>
                 (Inr (make_result ui (JStr response_text) continue_conv),
                  slept @ play_listening_resume_sound w))
          else (Inr (make_result ui (JStr response_text) continue_conv), []))"

section \<open>One turn (\<^verbatim>\<open>async_process\<close>)\<close>

text \<open>The routing on \<^verbatim>\<open>response_type\<close>, an \<^verbatim>\<open>if\<close>/\<^verbatim>\<open>elif\<close>/\<^verbatim>\<open>else\<close> chain.\<close>

definition route_response ::
  "world \<Rightarrow> dict \<Rightarrow> user_input \<Rightarrow> (exn + conversation_result) \<times> event list" where
  "route_response w conversation_data ui =
     (let response_type = dict_get conversation_data ''response_type'' (JStr ''normal'') in
      if response_type = JStr ''immediate_speech_with_background_tools''
        then handle_immediate_speech_with_background_tools w conversation_data ui
      else if response_type = JStr ''error''
        then handle_error_response conversation_data ui
      else handle_normal_response w conversation_data ui)"

text \<open>
  From the decoded body on: the \<^verbatim>\<open>success\<close> check, the \<^verbatim>\<open>data\<close> field and the routing.
  A body or a \<^verbatim>\<open>data\<close> field that is not a dict has no \<^verbatim>\<open>get\<close>.
\<close>

definition process_result_data ::
  "world \<Rightarrow> json \<Rightarrow> user_input \<Rightarrow> (exn + conversation_result) \<times> event list" where
  "process_result_data w result_data ui =
     (case result_data of
        JObj result \<Rightarrow>
          if \<not> truthy (dict_get result ''success'' (JBool False))
          then (Inl (ConversationError
                  (''Conversation failed: ''
                     @ py_str (dict_get result ''error'' (JStr ''Unknown error'')))), [])
          else
            (case dict_get result ''data'' (JObj []) of
               JObj conversation_data \<Rightarrow> route_response w conversation_data ui
             | _ \<Rightarrow> (Inl AttributeError, []))
      | _ \<Rightarrow> (Inl AttributeError, []))"

text \<open>The \<^verbatim>\<open>f"..."\<close> rendering of an attribute that may be \<^verbatim>\<open>None\<close>.\<close>

definition format_optional :: "string option \<Rightarrow> string" where
  "format_optional x = (case x of None \<Rightarrow> ''None'' | Some s \<Rightarrow> s)"

definition json_optional :: "string option \<Rightarrow> json" where
  "json_optional x = (case x of None \<Rightarrow> JNull | Some s \<Rightarrow> JStr s)"

definition request_payload :: "entity \<Rightarrow> world \<Rightarrow> user_input \<Rightarrow> json" where
  "request_payload self w ui =
     (let session_id = ''voice_'' @ format_optional (conversation_id ui) in
      JObj [(''message'', JStr (ui_text ui)),
            (''context'', JObj
               [(''session_id'', JStr session_id),
                (''conversation_id'', json_optional (conversation_id ui)),
                (''device_id'', json_optional (device_id ui)),
                (''language'', JStr (language ui)),
                (''voice_interaction'', JBool True),
                (''timestamp'', JStr (utcnow_isoformat w)),
                (''ha_context'', JObj
                   [(''agent_id'', JStr (unique_id self)),
                    (''user_id'', json_optional (user_id ui))])])])"

text \<open>The body of the \<^verbatim>\<open>try\<close> statement.\<close>

definition try_body ::
  "entity \<Rightarrow> world \<Rightarrow> user_input \<Rightarrow> (exn + conversation_result) \<times> event list" where
  "try_body self w ui =
     (let api = get_current_api_url self w;
          payload = request_payload self w ui
      in case session_post w api payload of
           PostRaises e \<Rightarrow> (Inl e, [])
         | Response status body \<Rightarrow>
             if status \<noteq> 200
             then (Inl (ConversationError (''API error: '' @ int_str status)), [])
             else
               (case body of
                  Inl e \<Rightarrow> (Inl e, [])
                | Inr result_data \<Rightarrow> process_result_data w result_data ui))"

text \<open>The four \<^verbatim>\<open>except\<close> clauses, in their order.\<close>

fun error_message :: "exn \<Rightarrow> string" where
  "error_message TimeoutError = ''I'm having trouble thinking right now. Please try again.''"
| "error_message ClientError = ''I can't connect to my brain right now. Please try again.''"
| "error_message (ConversationError m) = ''Something went wrong with my thinking. Please try again.''"
| "error_message e = ''I encountered an unexpected error. Please try again.''"

definition create_error_response :: "user_input \<Rightarrow> string \<Rightarrow> conversation_result" where
  "create_error_response ui message = make_result ui (JStr message) (JBool False)"

definition async_process ::
  "entity \<Rightarrow> world \<Rightarrow> user_input \<Rightarrow> conversation_result \<times> event list" where
  "async_process self w ui =
     (case try_body self w ui of
        (Inr result, events) \<Rightarrow> (result, events)
      | (Inl e, events) \<Rightarrow> (create_error_response ui (error_message e), events))"

section \<open>The specification's vocabulary\<close>

text \<open>
  The specification names three handling variants and one classification of the
  \<^verbatim>\<open>response_type\<close> field (its \<^verbatim>\<open>immediateSpeechWithBackgroundTools\<close> is the wire value
  \<^verbatim>\<open>immediate_speech_with_background_tools\<close>): "error" is the Error variant, the
  immediate-speech value is its own variant, and an absent field, "normal" and every
  other value are Normal. The next two definitions follow the specification's words; the
  code has the \<^verbatim>\<open>if\<close> chain of \<open>route_response\<close> instead.
\<close>

datatype variant = Normal | ImmediateSpeechWithBackgroundTools | Error

definition spec_classify :: "json option \<Rightarrow> variant" where
  "spec_classify response_type =
     (if response_type = Some (JStr ''error'') then Error
      else if response_type = Some (JStr ''immediate_speech_with_background_tools'')
        then ImmediateSpeechWithBackgroundTools
      else Normal)"

definition run_variant ::
  "variant \<Rightarrow> world \<Rightarrow> dict \<Rightarrow> user_input \<Rightarrow> (exn + conversation_result) \<times> event list" where
  "run_variant v w conversation_data ui =
     (case v of
        Normal \<Rightarrow> handle_normal_response w conversation_data ui
      | ImmediateSpeechWithBackgroundTools \<Rightarrow>
          handle_immediate_speech_with_background_tools w conversation_data ui
      | Error \<Rightarrow> handle_error_response conversation_data ui)"

text \<open>
  The payload fields as the specification types them: \<^verbatim>\<open>speech_text\<close> an optional
  string, \<^verbatim>\<open>continue_delay\<close> an optional number with default 3 (here an integer, and
  one that a float can hold).
\<close>

definition optional_string :: "dict \<Rightarrow> string \<Rightarrow> bool" where
  "optional_string d k = (case map_of d k of None \<Rightarrow> True | Some (JStr s) \<Rightarrow> True | Some _ \<Rightarrow> False)"

definition optional_number :: "dict \<Rightarrow> string \<Rightarrow> bool" where
  "optional_number d k =
     (case map_of d k of
        None \<Rightarrow> True
      | Some (JInt n) \<Rightarrow> n < 2 ^ 1024 - 2 ^ 970
      | Some _ \<Rightarrow> False)"

definition continue_delay_seconds :: "dict \<Rightarrow> int" where
  "continue_delay_seconds d = (case map_of d ''continue_delay'' of Some (JInt n) \<Rightarrow> n | _ \<Rightarrow> 3)"

text \<open>
  The specification's endpoint priority: a dynamic host that is present and not a
  sentinel, then a configured host that is not empty, then the production address.
\<close>

definition spec_resolved_host :: "config_entry \<Rightarrow> world \<Rightarrow> string" where
  "spec_resolved_host config w =
     (let static = (case data_host config of
                      None \<Rightarrow> ''192.168.0.99''
                    | Some h \<Rightarrow> if h = [] then ''192.168.0.99'' else h)
      in case states_get w ''input_text.glitchcube_host'' of
           Inr (Some st) \<Rightarrow>
             if st = [] \<or> st = ''unknown'' \<or> st = ''unavailable'' then static else py_strip st
         | _ \<Rightarrow> static)"

text \<open>
  The data of the two service calls: the speech call with the payload's \<^verbatim>\<open>speech_text\<close>
  (default "On it!") and the alert call.
\<close>

definition tts_data :: "dict \<Rightarrow> dict" where
  "tts_data conversation_data =
     [(''entity_id'', JStr ''media_player.square_voice''),
      (''message'', dict_get conversation_data ''speech_text'' (JStr ''On it!'')),
      (''language'', JStr ''en-US'')]"

definition alert_data :: dict where
  "alert_data =
     [(''entity_id'', JStr ''media_player.square_voice''),
      (''media_content_id'', JStr ''/media/sounds/listening_resume.wav''),
      (''media_content_type'', JStr ''audio/wav'')]"

definition four_apologies :: "string list" where
  "four_apologies =
     [''I'm having trouble thinking right now. Please try again.'',
      ''I can't connect to my brain right now. Please try again.'',
      ''Something went wrong with my thinking. Please try again.'',
      ''I encountered an unexpected error. Please try again.'']"

section \<open>A concrete turn\<close>

text \<open>
  An installation with no configured host, a dynamic host published in the state store,
  and a backend that answers \<open>reply\<close>; used to run the definitions on concrete inputs.
\<close>

definition example_config :: config_entry where
  "example_config = \<lparr> data_host = Some [], data_port = None, entry_id = ''e1'' \<rparr>"

definition example_input :: user_input where
  "example_input =
     \<lparr> ui_text = ''turn on the lights'', conversation_id = Some ''c1'', device_id = None,
       language = ''en'', user_id = None \<rparr>"

definition example_world :: "http_outcome \<Rightarrow> world" where
  "example_world reply =
     \<lparr> states_get = (\<lambda>entity_id. Inr (Some ''10.0.0.7'')),
       services_async_call = (\<lambda>domain service service_data. None),
       session_post = (\<lambda>url payload. reply),
       utcnow_isoformat = ''2025-01-01T00:00:00+00:00'' \<rparr>"

definition envelope :: "dict \<Rightarrow> http_outcome" where
  "envelope conversation_data =
     Response 200 (Inr (JObj [(''success'', JBool True), (''data'', JObj conversation_data)]))"

section \<open>Properties\<close>

lemma clean_text_JStr:
  "clean_text (JStr s) =
     Inr (if py_strip s = [] then ''Sorry, I'm having trouble speaking right now.'' else py_strip s)"
  by (simp add: clean_text_def Let_def)

subsection \<open>Routing\<close>

text \<open>
  C1. Once the reply has status 200, decodes to a dict with a truthy \<^verbatim>\<open>success\<close> and a
  dict under \<^verbatim>\<open>data\<close> (the default is the empty dict), the turn runs exactly the handler
  of the variant that the specification's classification gives for \<^verbatim>\<open>response_type\<close>:
  "error" is Error, "immediate_speech_with_background_tools" is
  ImmediateSpeechWithBackgroundTools, and an absent field, "normal" and any other value
  are Normal.
\<close>

theorem router_selects_variant:
  assumes "session_post w (get_current_api_url self w) (request_payload self w ui)
             = Response 200 (Inr (JObj result))"
    and "truthy (dict_get result ''success'' (JBool False))"
    and "dict_get result ''data'' (JObj []) = JObj conversation_data"
  shows "try_body self w ui
           = run_variant (spec_classify (map_of conversation_data ''response_type''))
               w conversation_data ui"
  using assms
  by (auto simp: try_body_def process_result_data_def route_response_def run_variant_def
      spec_classify_def dict_get_def split: option.splits)

theorem router_selects_variant_witness:
  "try_body (init_entity example_config)
     (example_world (envelope [(''response_type'', JStr ''something_new''), (''response'', JStr ''hi'')]))
     example_input
   = handle_normal_response
       (example_world (envelope [(''response_type'', JStr ''something_new''), (''response'', JStr ''hi'')]))
       [(''response_type'', JStr ''something_new''), (''response'', JStr ''hi'')] example_input"
  using router_selects_variant
    [of "example_world (envelope [(''response_type'', JStr ''something_new''), (''response'', JStr ''hi'')])"
      "init_entity example_config" example_input
      "[(''success'', JBool True),
        (''data'', JObj [(''response_type'', JStr ''something_new''), (''response'', JStr ''hi'')])]"
      "[(''response_type'', JStr ''something_new''), (''response'', JStr ''hi'')]"]
  by (simp add: example_world_def envelope_def dict_get_def spec_classify_def run_variant_def)

subsection \<open>The immediate-speech and the error handler\<close>

lemma try_async_call_events:
  "try_async_call w domain service service_data
     = [ServiceCall domain service service_data (services_async_call w domain service service_data)]"
  by (simp add: try_async_call_def split: option.splits)

text \<open>
  C2. A payload routed to the immediate-speech handler, with \<^verbatim>\<open>speech_text\<close> absent or a
  string and \<^verbatim>\<open>continue_delay\<close> absent or an integer that a float can hold, always
  returns the spoken text \<^verbatim>\<open>" "\<close>, which is only whitespace, and
  \<^verbatim>\<open>continue_conversation = True\<close>, whatever the payload's own \<^verbatim>\<open>continue_conversation\<close>
  is. Before returning it has issued the speech call, slept for \<^verbatim>\<open>continue_delay\<close>
  seconds (default 3) and issued the alert call, in this order and whatever the outcome of
  the two calls.
\<close>

theorem immediate_speech_result:
  assumes "map_of conversation_data ''response_type''
             = Some (JStr ''immediate_speech_with_background_tools'')"
    and "optional_string conversation_data ''speech_text''"
    and "optional_number conversation_data ''continue_delay''"
  shows "route_response w conversation_data ui
           = (Inr (make_result ui (JStr '' '') (JBool True)),
              [ServiceCall ''tts'' ''cloud_say'' (tts_data conversation_data)
                 (services_async_call w ''tts'' ''cloud_say'' (tts_data conversation_data)),
               Sleep (continue_delay_seconds conversation_data),
               ServiceCall ''media_player'' ''play_media'' alert_data
                 (services_async_call w ''media_player'' ''play_media'' alert_data)])
         \<and> py_strip '' '' = []"
proof
  show "py_strip '' '' = []"
    by (simp add: py_strip_def is_space_def)
  show "route_response w conversation_data ui
           = (Inr (make_result ui (JStr '' '') (JBool True)),
              [ServiceCall ''tts'' ''cloud_say'' (tts_data conversation_data)
                 (services_async_call w ''tts'' ''cloud_say'' (tts_data conversation_data)),
               Sleep (continue_delay_seconds conversation_data),
               ServiceCall ''media_player'' ''play_media'' alert_data
                 (services_async_call w ''media_player'' ''play_media'' alert_data)])"
    using assms
    by (auto simp: route_response_def handle_immediate_speech_with_background_tools_def
        dict_get_def optional_string_def optional_number_def continue_delay_seconds_def
        py_slice_def asyncio_sleep_def try_async_call_events play_listening_resume_sound_def
        tts_data_def alert_data_def Let_def split: option.splits json.splits)
qed

theorem immediate_speech_result_witness:
  "route_response (example_world (PostRaises TimeoutError))
     [(''response_type'', JStr ''immediate_speech_with_background_tools''),
      (''speech_text'', JStr ''Working on it''), (''continue_delay'', JInt 5),
      (''continue_conversation'', JBool False)]
     example_input
   = (Inr \<lparr> result_conversation_id = Some ''c1'', response_language = ''en'',
            speech = JStr '' '', continue_conversation = JBool True \<rparr>,
      [ServiceCall ''tts'' ''cloud_say''
         [(''entity_id'', JStr ''media_player.square_voice''),
          (''message'', JStr ''Working on it''), (''language'', JStr ''en-US'')] None,
       Sleep 5,
       ServiceCall ''media_player'' ''play_media''
         [(''entity_id'', JStr ''media_player.square_voice''),
          (''media_content_id'', JStr ''/media/sounds/listening_resume.wav''),
          (''media_content_type'', JStr ''audio/wav'')] None])"
  using immediate_speech_result
    [of "[(''response_type'', JStr ''immediate_speech_with_background_tools''),
          (''speech_text'', JStr ''Working on it''), (''continue_delay'', JInt 5),
          (''continue_conversation'', JBool False)]"
      "example_world (PostRaises TimeoutError)" example_input]
  by (simp add: optional_string_def optional_number_def continue_delay_seconds_def dict_get_def
      make_result_def example_input_def tts_data_def alert_data_def example_world_def)

text \<open>
  C3. A payload whose \<^verbatim>\<open>response_type\<close> is "error" returns, as spoken text, the value of
  \<^verbatim>\<open>speech_text\<close>, or "I encountered an error." when the key is absent, with
  \<^verbatim>\<open>continue_conversation = False\<close>; nothing is called and nothing sleeps.
\<close>

theorem error_response_result:
  assumes "map_of conversation_data ''response_type'' = Some (JStr ''error'')"
  shows "route_response w conversation_data ui
           = (Inr (make_result ui
                     (case map_of conversation_data ''speech_text'' of
                        None \<Rightarrow> JStr ''I encountered an error.''
                      | Some v \<Rightarrow> v)
                     (JBool False)), [])"
  using assms
  by (simp add: route_response_def handle_error_response_def dict_get_def)

theorem error_response_result_witness:
  "route_response (example_world (PostRaises TimeoutError))
     [(''response_type'', JStr ''error''), (''continue_conversation'', JBool True)] example_input
   = (Inr \<lparr> result_conversation_id = Some ''c1'', response_language = ''en'',
            speech = JStr ''I encountered an error.'', continue_conversation = JBool False \<rparr>, [])"
  using error_response_result
    [of "[(''response_type'', JStr ''error''), (''continue_conversation'', JBool True)]"
      "example_world (PostRaises TimeoutError)" example_input]
  by (simp add: make_result_def example_input_def)

subsection \<open>Speech extraction\<close>

text \<open>
  C4. For a dict under \<^verbatim>\<open>response\<close> the shapes are tried in one order: a non-empty
  string at \<^verbatim>\<open>speech.plain.speech\<close> wins whatever the other fields hold; when that shape
  gives nothing truthy, a non-empty string at \<^verbatim>\<open>response\<close> wins; when both give nothing,
  the first 100 characters of \<^verbatim>\<open>data.custom_data.claude_response\<close> are taken if there are
  any; otherwise the text is "I had some trouble with that response.". The chosen text is
  then trimmed. The test vectors of the specification evaluate to "hi", "hello", a
  fallback string (for an empty dict under \<^verbatim>\<open>response\<close> and for an empty payload) and
  "plain text".
\<close>

theorem extraction_priority_order:
  "(map_of conversation_data ''response'' = Some (JObj raw) \<longrightarrow>
      (speech_plain_speech raw = Inr (JStr s1) \<and> s1 \<noteq> [] \<longrightarrow>
         extract_response_text conversation_data = clean_text (JStr s1))
    \<and> (speech_plain_speech raw = Inr a2 \<and> \<not> truthy a2
         \<and> map_of raw ''response'' = Some (JStr s2) \<and> s2 \<noteq> [] \<longrightarrow>
         extract_response_text conversation_data = clean_text (JStr s2))
    \<and> (speech_plain_speech raw = Inr a3 \<and> \<not> truthy a3
         \<and> \<not> truthy (dict_get raw ''response'' JNull)
         \<and> custom_data_claude_response raw = Inr c3 \<and> take 100 (py_str c3) \<noteq> [] \<longrightarrow>
         extract_response_text conversation_data = clean_text (JStr (take 100 (py_str c3))))
    \<and> (speech_plain_speech raw = Inr a4 \<and> \<not> truthy a4
         \<and> \<not> truthy (dict_get raw ''response'' JNull)
         \<and> custom_data_claude_response raw = Inr c4 \<and> take 100 (py_str c4) = [] \<longrightarrow>
         extract_response_text conversation_data = Inr ''I had some trouble with that response.''))
   \<and> extract_response_text
         [(''response'', JObj [(''speech'', JObj [(''plain'', JObj [(''speech'', JStr ''hi'')])])])]
       = Inr ''hi''
   \<and> extract_response_text [(''response'', JObj [(''response'', JStr ''hello'')])] = Inr ''hello''
   \<and> extract_response_text [(''response'', JObj [])] = Inr ''I had some trouble with that response.''
   \<and> extract_response_text [] = Inr ''I didn't understand that.''
   \<and> extract_response_text [(''response'', JStr ''plain text'')] = Inr ''plain text''"
  apply (intro conjI impI)
          apply (auto simp: extract_response_text_def RESPONSE_KEY_def dict_get_def Let_def
      clean_text_JStr speech_plain_speech_def custom_data_claude_response_def py_get_def
      py_str_def py_strip_def is_space_def)
  done

theorem extraction_priority_order_witness:
  "extract_response_text
     [(''response'', JObj [(''speech'', JObj [(''plain'', JObj [(''speech'', JStr ''  hi '')])]),
                           (''response'', JStr ''hello'')])]
   = Inr ''hi''
   \<and> extract_response_text
     [(''response'', JObj [(''speech'', JObj [(''plain'', JObj [(''speech'', JStr [])])]),
                           (''response'', JStr ''hello''),
                           (''data'', JObj [(''custom_data'', JObj [(''claude_response'', JStr ''c'')])])])]
   = Inr ''hello''
   \<and> extract_response_text
     [(''response'', JObj [(''response'', JStr []),
                           (''data'', JObj [(''custom_data'', JObj [(''claude_response'', JInt 42)])])])]
   = Inr ''42''
   \<and> extract_response_text
     [(''response'', JObj [(''data'', JObj [(''custom_data'', JObj [])])])]
   = Inr ''I had some trouble with that response.''"
  using extraction_priority_order
    [where conversation_data =
        "[(''response'', JObj [(''speech'', JObj [(''plain'', JObj [(''speech'', JStr ''  hi '')])]),
                               (''response'', JStr ''hello'')])]"
      and raw = "[(''speech'', JObj [(''plain'', JObj [(''speech'', JStr ''  hi '')])]),
                  (''response'', JStr ''hello'')]"
      and ?s1.0 = "''  hi ''"]
    extraction_priority_order
    [where conversation_data =
        "[(''response'', JObj [(''speech'', JObj [(''plain'', JObj [(''speech'', JStr [])])]),
                           (''response'', JStr ''hello''),
                           (''data'', JObj [(''custom_data'', JObj [(''claude_response'', JStr ''c'')])])])]"
      and raw = "[(''speech'', JObj [(''plain'', JObj [(''speech'', JStr [])])]),
                  (''response'', JStr ''hello''),
                  (''data'', JObj [(''custom_data'', JObj [(''claude_response'', JStr ''c'')])])]"
      and ?a2.0 = "JStr []" and ?s2.0 = "''hello''"]
    extraction_priority_order
    [where conversation_data =
        "[(''response'', JObj [(''response'', JStr []),
                           (''data'', JObj [(''custom_data'', JObj [(''claude_response'', JInt 42)])])])]"
      and raw = "[(''response'', JStr []),
                  (''data'', JObj [(''custom_data'', JObj [(''claude_response'', JInt 42)])])]"
      and ?a3.0 = JNull and ?c3.0 = "JInt 42"]
    extraction_priority_order
    [where conversation_data =
        "[(''response'', JObj [(''data'', JObj [(''custom_data'', JObj [])])])]"
      and raw = "[(''data'', JObj [(''custom_data'', JObj [])])]"
      and ?a4.0 = JNull and ?c4.0 = "JStr []"]
  by (simp add: speech_plain_speech_def custom_data_claude_response_def py_get_def dict_get_def
      clean_text_def py_str_def py_strip_def is_space_def int_str_def nat_str.simps digit_char_def)

text \<open>
  C10. When the dict under \<^verbatim>\<open>response\<close> gives nothing truthy at
  \<^verbatim>\<open>speech.plain.speech\<close> and at \<^verbatim>\<open>response\<close>, the value at
  \<^verbatim>\<open>data.custom_data.claude_response\<close> is turned into a string and cut to its first 100
  characters; if any character is left, the spoken text is this prefix, trimmed (the
  safety string if trimming leaves nothing).
\<close>

theorem claude_response_truncated:
  assumes "map_of conversation_data ''response'' = Some (JObj raw)"
    and "speech_plain_speech raw = Inr nested" and "\<not> truthy nested"
    and "\<not> truthy (dict_get raw ''response'' JNull)"
    and "custom_data_claude_response raw = Inr claude"
    and "take 100 (py_str claude) \<noteq> []"
  shows "extract_response_text conversation_data
           = Inr (if py_strip (take 100 (py_str claude)) = []
                  then ''Sorry, I'm having trouble speaking right now.''
                  else py_strip (take 100 (py_str claude)))
         \<and> length (take 100 (py_str claude)) \<le> 100"
  using assms
  by (simp add: extract_response_text_def RESPONSE_KEY_def dict_get_def Let_def clean_text_JStr)

theorem claude_response_truncated_witness:
  "extract_response_text
     [(''response'', JObj [(''data'', JObj [(''custom_data'',
         JObj [(''claude_response'', JStr (replicate 150 CHR ''a''))])])])]
   = Inr (replicate 100 CHR ''a'')"
  using claude_response_truncated
    [of "[(''response'', JObj [(''data'', JObj [(''custom_data'',
            JObj [(''claude_response'', JStr (replicate 150 CHR ''a''))])])])]"
      "[(''data'', JObj [(''custom_data'',
            JObj [(''claude_response'', JStr (replicate 150 CHR ''a''))])])]"
      JNull "JStr (replicate 150 CHR ''a'')"]
  by (simp add: speech_plain_speech_def custom_data_claude_response_def py_get_def dict_get_def
      py_str_def py_strip_def is_space_def)

subsection \<open>Endpoint resolution\<close>

text \<open>
  C5. Resolution always gives a URL, \<^verbatim>\<open>http://HOST:PORT/api/v1/conversation\<close>. HOST is the
  dynamic host (trimmed) when the state store has one that is not empty, "unknown" or
  "unavailable"; otherwise the configured host when it is not empty; otherwise
  192.168.0.99. PORT is the configured port, 4567 when none is configured.
\<close>

theorem endpoint_resolution_priority:
  "get_current_api_url (init_entity config) w
     = ''http://'' @ spec_resolved_host config w @ '':''
       @ int_str (case data_port config of None \<Rightarrow> 4567 | Some p \<Rightarrow> p)
       @ ''/api/v1/conversation''"
  by (auto simp: get_current_api_url_def dynamic_api_url_def init_entity_def config_port_def
      spec_resolved_host_def DEFAULT_PORT_def Let_def split: sum.splits option.splits)

theorem endpoint_resolution_priority_witness:
  "get_current_api_url (init_entity example_config) (example_world (PostRaises TimeoutError))
     = ''http://10.0.0.7:4567/api/v1/conversation''
   \<and> get_current_api_url
       (init_entity \<lparr> data_host = Some ''cube.local'', data_port = Some 8080, entry_id = ''e2'' \<rparr>)
       ((example_world (PostRaises TimeoutError)) \<lparr> states_get := (\<lambda>entity_id. Inr (Some ''unknown'')) \<rparr>)
     = ''http://cube.local:8080/api/v1/conversation''
   \<and> get_current_api_url (init_entity example_config)
       ((example_world (PostRaises TimeoutError)) \<lparr> states_get := (\<lambda>entity_id. Inr None) \<rparr>)
     = ''http://192.168.0.99:4567/api/v1/conversation''"
  using endpoint_resolution_priority [of example_config "example_world (PostRaises TimeoutError)"]
    endpoint_resolution_priority
      [of "\<lparr> data_host = Some ''cube.local'', data_port = Some 8080, entry_id = ''e2'' \<rparr>"
        "(example_world (PostRaises TimeoutError)) \<lparr> states_get := (\<lambda>entity_id. Inr (Some ''unknown'')) \<rparr>"]
    endpoint_resolution_priority
      [of example_config
        "(example_world (PostRaises TimeoutError)) \<lparr> states_get := (\<lambda>entity_id. Inr None) \<rparr>"]
  by (simp add: spec_resolved_host_def example_config_def example_world_def py_strip_def
      is_space_def int_str_def nat_str.simps digit_char_def)

subsection \<open>The status check\<close>

text \<open>
  C8, as the specification words it, asks that every 2xx reply goes on to the decoding of
  the body. The code compares the status with 200 only: a reply with status 201 and a
  well-formed successful body is a status error.
\<close>

theorem status_201_counterexample:
  "(200::int) \<le> 201 \<and> (201::int) < 300
   \<and> try_body (init_entity example_config)
        (example_world (Response 201
           (Inr (JObj [(''success'', JBool True),
                       (''data'', JObj [(''response'', JStr ''Hello there'')])]))))
        example_input
      = (Inl (ConversationError ''API error: 201''), [])"
  by (simp add: try_body_def example_world_def int_str_def nat_str.simps digit_char_def)

text \<open>
  C8, amended. A reply is a status error (a \<^verbatim>\<open>ConversationError\<close> naming the status, with
  no side effect) exactly when its status is not 200; a reply with status 200 goes on to
  the decoding of its body.
\<close>

theorem status_error_unless_200:
  assumes "session_post w (get_current_api_url self w) (request_payload self w ui)
             = Response status body"
  shows "(status \<noteq> 200 \<longrightarrow>
            try_body self w ui = (Inl (ConversationError (''API error: '' @ int_str status)), []))
       \<and> (status = 200 \<longrightarrow>
            try_body self w ui
              = (case body of
                   Inl e \<Rightarrow> (Inl e, [])
                 | Inr result_data \<Rightarrow> process_result_data w result_data ui))"
  using assms by (simp add: try_body_def)

theorem status_error_unless_200_witness:
  "try_body (init_entity example_config) (example_world (Response 503 (Inl ClientError))) example_input
     = (Inl (ConversationError ''API error: 503''), [])
   \<and> try_body (init_entity example_config) (example_world (Response 200 (Inl ClientError))) example_input
     = (Inl ClientError, [])"
  using status_error_unless_200
      [of "example_world (Response 503 (Inl ClientError))" "init_entity example_config"
        example_input 503 "Inl ClientError"]
    status_error_unless_200
      [of "example_world (Response 200 (Inl ClientError))" "init_entity example_config"
        example_input 200 "Inl ClientError"]
  by (simp add: example_world_def int_str_def nat_str.simps digit_char_def)

subsection \<open>Failures at the turn boundary\<close>

lemma error_message_apology: "error_message e \<in> set four_apologies"
  by (cases e) (simp_all add: four_apologies_def)

lemma async_process_raises:
  "fst (try_body self w ui) = Inl e \<Longrightarrow>
     fst (async_process self w ui) = make_result ui (JStr (error_message e)) (JBool False)"
  by (cases "try_body self w ui") (simp add: async_process_def create_error_response_def)

text \<open>
  C6. Whatever exception \<open>e\<close> the body of the \<^verbatim>\<open>try\<close> statement raises, the turn
  returns a result whose spoken text is the apology of \<open>e\<close>, one of the four fixed
  strings, with \<^verbatim>\<open>continue_conversation = False\<close>: a timeout gives the first, a client
  (transport) error the second, a \<^verbatim>\<open>ConversationError\<close> the third and everything else the
  fourth. The POST raising, a status other than 200, the decoding of the body raising, and
  a body whose \<^verbatim>\<open>success\<close> is not truthy are such exceptions; the last two kinds of
  reply raise a \<^verbatim>\<open>ConversationError\<close>.
\<close>

theorem failures_become_apologies:
  "(fst (try_body self w ui) = Inl e \<longrightarrow>
      speech (fst (async_process self w ui)) = JStr (error_message e)
      \<and> continue_conversation (fst (async_process self w ui)) = JBool False)
   \<and> error_message e \<in> set four_apologies
   \<and> error_message TimeoutError = ''I'm having trouble thinking right now. Please try again.''
   \<and> error_message ClientError = ''I can't connect to my brain right now. Please try again.''
   \<and> error_message (ConversationError m)
       = ''Something went wrong with my thinking. Please try again.''
   \<and> (e \<noteq> TimeoutError \<and> e \<noteq> ClientError \<and> e \<notin> range ConversationError \<longrightarrow>
        error_message e = ''I encountered an unexpected error. Please try again.'')
   \<and> (session_post w (get_current_api_url self w) (request_payload self w ui) = PostRaises e \<longrightarrow>
        fst (try_body self w ui) = Inl e)
   \<and> (session_post w (get_current_api_url self w) (request_payload self w ui)
         = Response status body \<and> status \<noteq> 200 \<longrightarrow>
        fst (try_body self w ui) = Inl (ConversationError (''API error: '' @ int_str status)))
   \<and> (session_post w (get_current_api_url self w) (request_payload self w ui)
         = Response 200 (Inl e) \<longrightarrow>
        fst (try_body self w ui) = Inl e)
   \<and> (session_post w (get_current_api_url self w) (request_payload self w ui)
         = Response 200 (Inr (JObj result))
       \<and> \<not> truthy (dict_get result ''success'' (JBool False)) \<longrightarrow>
        fst (try_body self w ui)
          = Inl (ConversationError (''Conversation failed: ''
                   @ py_str (dict_get result ''error'' (JStr ''Unknown error'')))))"
proof (intro conjI impI)
  assume "fst (try_body self w ui) = Inl e"
  from async_process_raises [OF this]
  show "speech (fst (async_process self w ui)) = JStr (error_message e)"
    and "continue_conversation (fst (async_process self w ui)) = JBool False"
    by (simp_all add: make_result_def)
next
  show "error_message e \<in> set four_apologies" by (rule error_message_apology)
next
  assume "e \<noteq> TimeoutError \<and> e \<noteq> ClientError \<and> e \<notin> range ConversationError"
  then show "error_message e = ''I encountered an unexpected error. Please try again.''"
    by (cases e) auto
qed (auto simp: try_body_def process_result_data_def)

theorem failures_become_apologies_witness:
  "speech (fst (async_process (init_entity example_config)
        (example_world (Response 500 (Inl OtherException))) example_input))
     = JStr ''Something went wrong with my thinking. Please try again.''
   \<and> continue_conversation (fst (async_process (init_entity example_config)
        (example_world (Response 500 (Inl OtherException))) example_input))
     = JBool False
   \<and> speech (fst (async_process (init_entity example_config)
        (example_world (PostRaises TimeoutError)) example_input))
     = JStr ''I'm having trouble thinking right now. Please try again.''
   \<and> speech (fst (async_process (init_entity example_config)
        (example_world (Response 200 (Inl ClientError))) example_input))
     = JStr ''I can't connect to my brain right now. Please try again.''
   \<and> speech (fst (async_process (init_entity example_config)
        (example_world (Response 200 (Inr (JObj [(''success'', JBool False), (''error'', JStr ''busy'')]))))
        example_input))
     = JStr ''Something went wrong with my thinking. Please try again.''
   \<and> speech (fst (async_process (init_entity example_config)
        (example_world (Response 200 (Inr (JArr [])))) example_input))
     = JStr ''I encountered an unexpected error. Please try again.''"
proof -
  let ?self = "init_entity example_config"
  have r1: "fst (try_body ?self (example_world (Response 500 (Inl OtherException))) example_input)
              = Inl (ConversationError ''API error: 500'')"
    using failures_become_apologies
      [where self = ?self and w = "example_world (Response 500 (Inl OtherException))"
        and ui = example_input and status = 500 and body = "Inl OtherException"]
    by (simp add: example_world_def int_str_def nat_str.simps digit_char_def)
  have r2: "fst (try_body ?self (example_world (PostRaises TimeoutError)) example_input)
              = Inl TimeoutError"
    using failures_become_apologies
      [where self = ?self and w = "example_world (PostRaises TimeoutError)"
        and ui = example_input and e = TimeoutError]
    by (simp add: example_world_def)
  have r3: "fst (try_body ?self (example_world (Response 200 (Inl ClientError))) example_input)
              = Inl ClientError"
    using failures_become_apologies
      [where self = ?self and w = "example_world (Response 200 (Inl ClientError))"
        and ui = example_input and e = ClientError]
    by (simp add: example_world_def)
  have r4: "fst (try_body ?self
              (example_world (Response 200 (Inr (JObj [(''success'', JBool False), (''error'', JStr ''busy'')]))))
              example_input)
              = Inl (ConversationError ''Conversation failed: busy'')"
    using failures_become_apologies
      [where self = ?self
        and w = "example_world (Response 200 (Inr (JObj [(''success'', JBool False), (''error'', JStr ''busy'')])))"
        and ui = example_input and result = "[(''success'', JBool False), (''error'', JStr ''busy'')]"]
    by (simp add: example_world_def dict_get_def py_str_def)
  have r5: "fst (try_body ?self (example_world (Response 200 (Inr (JArr [])))) example_input)
              = Inl AttributeError"
    by (simp add: try_body_def process_result_data_def example_world_def)
  show ?thesis
    using failures_become_apologies
        [where self = ?self and w = "example_world (Response 500 (Inl OtherException))"
          and ui = example_input and e = "ConversationError ''API error: 500''"]
      failures_become_apologies
        [where self = ?self and w = "example_world (PostRaises TimeoutError)"
          and ui = example_input and e = TimeoutError]
      failures_become_apologies
        [where self = ?self and w = "example_world (Response 200 (Inl ClientError))"
          and ui = example_input and e = ClientError]
      failures_become_apologies
        [where self = ?self
          and w = "example_world (Response 200 (Inr (JObj [(''success'', JBool False), (''error'', JStr ''busy'')])))"
          and ui = example_input and e = "ConversationError ''Conversation failed: busy''"]
      failures_become_apologies
        [where self = ?self and w = "example_world (Response 200 (Inr (JArr [])))"
          and ui = example_input and e = AttributeError]
      r1 r2 r3 r4 r5
    by simp
qed

subsection \<open>Side-effect failures\<close>

lemma handlers_ignore_service_outcome:
  "fst (handle_immediate_speech_with_background_tools (w\<lparr>services_async_call := f\<rparr>) cd ui)
     = fst (handle_immediate_speech_with_background_tools w cd ui)"
  "fst (handle_normal_response (w\<lparr>services_async_call := f\<rparr>) cd ui)
     = fst (handle_normal_response w cd ui)"
  by (auto simp: handle_immediate_speech_with_background_tools_def handle_normal_response_def
      Let_def split: sum.splits)

lemma route_ignores_service_outcome:
  "fst (route_response (w\<lparr>services_async_call := f\<rparr>) cd ui) = fst (route_response w cd ui)"
  by (simp add: route_response_def handlers_ignore_service_outcome Let_def)

lemma process_ignores_service_outcome:
  "fst (process_result_data (w\<lparr>services_async_call := f\<rparr>) result_data ui)
     = fst (process_result_data w result_data ui)"
  by (simp add: process_result_data_def route_ignores_service_outcome split: json.splits)

lemma try_body_ignores_service_outcome:
  "fst (try_body self (w\<lparr>services_async_call := f\<rparr>) ui) = fst (try_body self w ui)"
  by (simp add: try_body_def get_current_api_url_def dynamic_api_url_def request_payload_def
      process_ignores_service_outcome Let_def split: http_outcome.splits sum.splits)

text \<open>
  C9. Replace the outcome of every service call (the speech call and the alert call) by
  any other outcome \<open>f\<close>, failing or not: the body of the \<^verbatim>\<open>try\<close> statement raises or
  returns exactly as before, so no failure of a service call leaves the turn, and the
  turn returns the same result, spoken text and \<^verbatim>\<open>continue_conversation\<close> included.
\<close>

theorem side_effect_failures_swallowed:
  "fst (try_body self (w\<lparr>services_async_call := f\<rparr>) ui) = fst (try_body self w ui)
   \<and> fst (async_process self (w\<lparr>services_async_call := f\<rparr>) ui) = fst (async_process self w ui)"
proof
  show outcome: "fst (try_body self (w\<lparr>services_async_call := f\<rparr>) ui) = fst (try_body self w ui)"
    by (rule try_body_ignores_service_outcome)
  show "fst (async_process self (w\<lparr>services_async_call := f\<rparr>) ui) = fst (async_process self w ui)"
    using outcome
    by (cases "try_body self w ui"; cases "try_body self (w\<lparr>services_async_call := f\<rparr>) ui")
      (auto simp: async_process_def split: sum.splits)
qed

theorem side_effect_failures_swallowed_witness:
  "fst (async_process (init_entity example_config)
      ((example_world (envelope [(''response_type'', JStr ''immediate_speech_with_background_tools'')]))
         \<lparr>services_async_call := (\<lambda>domain service service_data. Some OtherException)\<rparr>)
      example_input)
   = \<lparr> result_conversation_id = Some ''c1'', response_language = ''en'',
       speech = JStr '' '', continue_conversation = JBool True \<rparr>"
  using side_effect_failures_swallowed
    [where self = "init_entity example_config"
      and w = "example_world (envelope [(''response_type'', JStr ''immediate_speech_with_background_tools'')])"
      and f = "\<lambda>domain service service_data. Some OtherException" and ui = example_input]
  by (simp add: async_process_def try_body_def process_result_data_def route_response_def
      handle_immediate_speech_with_background_tools_def
      example_world_def envelope_def dict_get_def py_slice_def asyncio_sleep_def make_result_def
      example_input_def Let_def)

subsection \<open>The spoken text on each path\<close>

lemma dropWhile_self: "xs = [] \<or> \<not> P (hd xs) \<Longrightarrow> dropWhile P xs = xs"
  by (cases xs) auto

lemma last_dropWhile: "dropWhile P xs \<noteq> [] \<Longrightarrow> last (dropWhile P xs) = last xs"
  by (induction xs) (auto split: if_splits)

text \<open>Trimming a trimmed string changes nothing.\<close>

lemma py_strip_idem: "py_strip (py_strip s) = py_strip s"
proof -
  define t where "t = dropWhile is_space s"
  define u where "u = dropWhile is_space (rev t)"
  have strip: "py_strip s = rev u"
    by (simp add: py_strip_def t_def u_def)
  have front: "dropWhile is_space (rev u) = rev u"
  proof (cases "u = []")
    case True
    then show ?thesis by simp
  next
    case False
    then have "rev t \<noteq> []" by (auto simp: u_def)
    then have t_ne: "t \<noteq> []" by simp
    then have "\<not> is_space (hd t)"
      unfolding t_def by (rule hd_dropWhile)
    moreover have "last u = last (rev t)"
      using False unfolding u_def by (rule last_dropWhile)
    moreover have "last (rev t) = hd t"
      using t_ne by (simp add: last_rev)
    moreover have "hd (rev u) = last u"
      using False by (simp add: hd_rev)
    ultimately have "\<not> is_space (hd (rev u))" by simp
    then show ?thesis by (rule dropWhile_self [OF disjI2])
  qed
  have rear: "dropWhile is_space u = u"
    by (simp add: u_def)
  show ?thesis
    unfolding strip by (simp add: py_strip_def front rear)
qed

lemma error_message_speakable: "py_strip (error_message e) \<noteq> []"
  by (cases e) (simp_all add: py_strip_def is_space_def)

lemma clean_text_speakable:
  assumes "clean_text v = Inr t"
  shows "py_strip t = t \<and> t \<noteq> []"
proof (cases v)
  case (JStr s)
  with assms have t: "t = (if py_strip s = [] then ''Sorry, I'm having trouble speaking right now.''
                           else py_strip s)"
    by (simp add: clean_text_JStr)
  show ?thesis
  proof (cases "py_strip s = []")
    case True
    with t show ?thesis by (simp add: py_strip_def is_space_def)
  next
    case False
    with t show ?thesis by (simp add: py_strip_idem)
  qed
qed (use assms in \<open>simp_all add: clean_text_def\<close>)

lemma extract_response_text_speakable:
  assumes "extract_response_text conversation_data = Inr t"
  shows "py_strip t = t \<and> t \<noteq> []"
proof -
  from assms obtain v where "clean_text v = Inr t"
    by (auto simp: extract_response_text_def Let_def split: json.splits sum.splits if_splits)
  then show ?thesis by (rule clean_text_speakable)
qed

lemma handle_normal_response_speech:
  assumes "handle_normal_response w conversation_data ui = (Inr r, evs)"
  shows "\<exists>s. speech r = JStr s \<and> py_strip s = s \<and> s \<noteq> []"
proof -
  from assms obtain t where "extract_response_text conversation_data = Inr t"
    and "speech r = JStr t"
    by (auto simp: handle_normal_response_def make_result_def Let_def
        split: sum.splits if_splits)
  with extract_response_text_speakable show ?thesis by blast
qed

text \<open>
  C7, as the specification words it, asks for a spoken text that is never empty and never
  only whitespace on every path. The immediate-speech handler returns the single space
  \<^verbatim>\<open>" "\<close>, which trimming empties, and the error handler returns the payload's
  \<^verbatim>\<open>speech_text\<close> as it is, here the empty string.
\<close>

theorem spoken_text_counterexample:
  "speech (fst (async_process (init_entity example_config)
      (example_world (envelope [(''response_type'', JStr ''immediate_speech_with_background_tools'')]))
      example_input)) = JStr '' ''
   \<and> py_strip '' '' = []
   \<and> speech (fst (async_process (init_entity example_config)
      (example_world (envelope [(''response_type'', JStr ''error''), (''speech_text'', JStr [])]))
      example_input)) = JStr []"
  by (simp add: async_process_def try_body_def process_result_data_def route_response_def
      handle_immediate_speech_with_background_tools_def handle_error_response_def
      example_world_def envelope_def dict_get_def py_slice_def asyncio_sleep_def make_result_def
      py_strip_def is_space_def Let_def)

text \<open>
  C7, amended. On the Normal path the spoken text is a trimmed, non-empty string: a text
  that trimming empties is replaced by "Sorry, I'm having trouble speaking right now.".
  On every client-error path it is the apology, which is not empty and not only
  whitespace. The immediate-speech path returns the single space \<^verbatim>\<open>" "\<close>, and the
  Error path returns the payload's \<^verbatim>\<open>speech_text\<close> unchanged ("I encountered an error."
  when the key is absent); neither is replaced.
\<close>

theorem spoken_text_by_path:
  "(handle_normal_response w conversation_data ui = (Inr r, evs) \<longrightarrow>
      (\<exists>s. speech r = JStr s \<and> py_strip s = s \<and> s \<noteq> []))
   \<and> clean_text (JStr s0)
       = Inr (if py_strip s0 = [] then ''Sorry, I'm having trouble speaking right now.''
              else py_strip s0)
   \<and> (fst (try_body self w ui) = Inl e \<longrightarrow>
        speech (fst (async_process self w ui)) = JStr (error_message e)
        \<and> py_strip (error_message e) \<noteq> [])
   \<and> (handle_immediate_speech_with_background_tools w conversation_data ui = (Inr r', evs') \<longrightarrow>
        speech r' = JStr '' '')
   \<and> fst (handle_error_response conversation_data ui)
       = Inr (make_result ui
                (case map_of conversation_data ''speech_text'' of
                   None \<Rightarrow> JStr ''I encountered an error.''
                 | Some v \<Rightarrow> v)
                (JBool False))"
proof (intro conjI impI)
  assume "handle_normal_response w conversation_data ui = (Inr r, evs)"
  then show "\<exists>s. speech r = JStr s \<and> py_strip s = s \<and> s \<noteq> []"
    by (rule handle_normal_response_speech)
next
  show "clean_text (JStr s0)
       = Inr (if py_strip s0 = [] then ''Sorry, I'm having trouble speaking right now.''
              else py_strip s0)"
    by (rule clean_text_JStr)
next
  assume raised: "fst (try_body self w ui) = Inl e"
  from async_process_raises [OF raised]
  show "speech (fst (async_process self w ui)) = JStr (error_message e)"
    by (simp add: make_result_def)
  show "py_strip (error_message e) \<noteq> []" by (rule error_message_speakable)
next
  assume "handle_immediate_speech_with_background_tools w conversation_data ui = (Inr r', evs')"
  then show "speech r' = JStr '' ''"
    by (auto simp: handle_immediate_speech_with_background_tools_def make_result_def Let_def
        split: sum.splits)
next
  show "fst (handle_error_response conversation_data ui)
       = Inr (make_result ui
                (case map_of conversation_data ''speech_text'' of
                   None \<Rightarrow> JStr ''I encountered an error.''
                 | Some v \<Rightarrow> v)
                (JBool False))"
    by (simp add: handle_error_response_def dict_get_def)
qed

theorem spoken_text_by_path_witness:
  "handle_normal_response (example_world (PostRaises ClientError))
       [(''response'', JStr ''   '')] example_input
     = (Inr (make_result example_input (JStr ''Sorry, I'm having trouble speaking right now.'')
               (JBool False)), [])
   \<and> (\<exists>s. speech (make_result example_input
                     (JStr ''Sorry, I'm having trouble speaking right now.'') (JBool False))
              = JStr s \<and> py_strip s = s \<and> s \<noteq> [])
   \<and> speech (fst (async_process (init_entity example_config) (example_world (PostRaises ClientError))
        example_input)) = JStr ''I can't connect to my brain right now. Please try again.''
   \<and> py_strip ''I can't connect to my brain right now. Please try again.'' \<noteq> []
   \<and> fst (handle_immediate_speech_with_background_tools (example_world (PostRaises ClientError))
          [(''speech_text'', JStr ''One moment'')] example_input)
     = Inr (make_result example_input (JStr '' '') (JBool True))"
proof -
  have normal: "handle_normal_response (example_world (PostRaises ClientError))
       [(''response'', JStr ''   '')] example_input
     = (Inr (make_result example_input (JStr ''Sorry, I'm having trouble speaking right now.'')
               (JBool False)), [])"
    by (simp add: handle_normal_response_def extract_response_text_def RESPONSE_KEY_def
        dict_get_def clean_text_def py_str_def py_strip_def is_space_def Let_def)
  have raised: "fst (try_body (init_entity example_config) (example_world (PostRaises ClientError))
        example_input) = Inl ClientError"
    by (simp add: try_body_def example_world_def)
  obtain r' evs' where immediate:
    "handle_immediate_speech_with_background_tools (example_world (PostRaises ClientError))
       [(''speech_text'', JStr ''One moment'')] example_input = (Inr r', evs')"
    and flag: "continue_conversation r' = JBool True"
    and ident: "result_conversation_id r' = conversation_id example_input"
      "response_language r' = language example_input"
    by (simp add: handle_immediate_speech_with_background_tools_def dict_get_def py_slice_def
        asyncio_sleep_def make_result_def Let_def)
  have "speech r' = JStr '' ''"
    using immediate
      spoken_text_by_path
        [where w = "example_world (PostRaises ClientError)"
          and conversation_data = "[(''speech_text'', JStr ''One moment'')]"
          and ui = example_input and r' = r' and evs' = evs']
    by simp
  with flag ident have "r' = make_result example_input (JStr '' '') (JBool True)"
    by (simp add: make_result_def)
  with immediate have third:
    "fst (handle_immediate_speech_with_background_tools (example_world (PostRaises ClientError))
          [(''speech_text'', JStr ''One moment'')] example_input)
     = Inr (make_result example_input (JStr '' '') (JBool True))"
    by simp
  show ?thesis
    using normal raised third
      spoken_text_by_path
        [where w = "example_world (PostRaises ClientError)"
          and conversation_data = "[(''response'', JStr ''   '')]" and ui = example_input
          and r = "make_result example_input
                     (JStr ''Sorry, I'm having trouble speaking right now.'') (JBool False)"
          and evs = "[]" and self = "init_entity example_config" and e = ClientError]
    by simp
qed

end
